theory Spec2Isabelle
  imports Complex_Main "HOL-Library.AList"
begin

section \<open>Python values and exceptions\<close>

text \<open>
  The batch processor stores whatever the caller hands it: file descriptions are strings
  or dictionaries, analysis results are JSON-like values. \<open>pyval\<close> is the fragment of
  Python's values these functions see, \<open>truthy\<close> is Python's truth test (\<open>if x:\<close>).
\<close>

datatype pyval =
    PNone
  | PBool bool
  | PInt int
  | PStr string
  | PList "pyval list"
  | PDict "(string \<times> pyval) list"

fun truthy :: "pyval \<Rightarrow> bool" where
  "truthy PNone = False"
| "truthy (PBool b) = b"
| "truthy (PInt n) = (n \<noteq> 0)"
| "truthy (PStr s) = (s \<noteq> [])"
| "truthy (PList xs) = (xs \<noteq> [])"
| "truthy (PDict d) = (d \<noteq> [])"

text \<open>
  Exceptions are values. \<open>Raised m\<close> is an exception raised by a caller-supplied
  function, with \<open>str(e) = m\<close>; \<open>HTTPException\<close> carries the status code and the detail.
\<close>

datatype exc =
    KeyError string
  | IndexError
  | ZeroDivisionError
  | TypeError string
  | HTTPException nat string
  | Raised string

text \<open>\<open>str(e)\<close>: a \<open>KeyError\<close> prints the \<open>repr\<close> of its key (quoted).\<close>

fun str_exc :: "exc \<Rightarrow> string" where
  "str_exc (KeyError k) = CHR 0x27 # k @ [CHR 0x27]"
| "str_exc IndexError = ''list index out of range''"
| "str_exc ZeroDivisionError = ''division by zero''"
| "str_exc (TypeError m) = m"
| "str_exc (HTTPException c d) = d"
| "str_exc (Raised m) = m"

text \<open>\<open>xs[i]\<close> on a list: a negative index counts from the end, out of range raises.\<close>

definition py_index :: "'a list \<Rightarrow> int \<Rightarrow> exc + 'a" where
  "py_index xs i =
     (if 0 \<le> i \<and> i < int (length xs) then Inr (xs ! nat i)
      else if i < 0 \<and> - int (length xs) \<le> i then Inr (xs ! nat (int (length xs) + i))
      else Inl IndexError)"

text \<open>\<open>d.get(k, default)\<close> on a dictionary with string keys.\<close>

definition dict_get :: "(string \<times> pyval) list \<Rightarrow> string \<Rightarrow> pyval \<Rightarrow> pyval" where
  "dict_get d k dflt = (case map_of d k of None \<Rightarrow> dflt | Some v \<Rightarrow> v)"

section \<open>Batch processor (utils/batch\_processor.py)\<close>

text \<open>
  A job is the dictionary \<open>create_job\<close> builds. The keys \<open>end_time\<close> and \<open>progress\<close>
  are absent until \<open>update_job_progress\<close> sets them. \<open>id_j\<close> and \<open>total_j\<close> are the keys
  \<open>id\<close> and \<open>total\<close>. Timestamps (\<open>datetime.now().isoformat()\<close>) are an argument of
  each operation. \<open>progress\<close> is a float in the source and an exact real here; no
  property below reads it.
\<close>

record result_entry =
  r_file_index :: int
  r_filename :: pyval
  r_result :: pyval

record error_entry =
  e_file_index :: int
  e_filename :: pyval
  e_error :: pyval

record job =
  id_j :: string
  files :: "pyval list"
  total_j :: int
  completed :: int
  status :: string
  start_time :: string
  results :: "result_entry list"
  errors :: "error_entry list"
  end_time :: "string option"
  progress :: "real option"

datatype lock = Lock

text \<open>
  The processor object. Every operation below runs as one step: the per-job lock is
  taken and released inside it, so between steps every lock is free and a lock is
  only looked up (\<open>self.locks[job_id]\<close> raises \<open>KeyError\<close> for an unknown id).
\<close>

record processor =
  max_workers :: nat
  jobs :: "string \<rightharpoonup> job"
  job_queue :: "(string \<times> int) list"
  results_p :: "string \<rightharpoonup> pyval"
  locks :: "string \<rightharpoonup> lock"

definition init_processor :: "nat \<Rightarrow> processor" where
  "init_processor mw =
     \<lparr>max_workers = mw, jobs = Map.empty, job_queue = [], results_p = Map.empty,
      locks = Map.empty\<rparr>"

definition create_job :: "processor \<Rightarrow> string \<Rightarrow> pyval list \<Rightarrow> string \<Rightarrow> job \<times> processor" where
  "create_job p job_id fs now =
     (let j = \<lparr>id_j = job_id, files = fs, total_j = int (length fs), completed = 0,
                status = ''pending'', start_time = now, results = [], errors = [],
                end_time = None, progress = None\<rparr>
      in (j, p\<lparr>jobs := (jobs p)(job_id \<mapsto> j), locks := (locks p)(job_id \<mapsto> Lock)\<rparr>))"

text \<open>The file name recorded with an entry (the source handles the dictionary format).\<close>

definition filename_of :: "pyval \<Rightarrow> pyval" where
  "filename_of file_info =
     (case file_info of
        PDict d \<Rightarrow> dict_get d ''filename'' (dict_get d ''path'' (PStr ''unknown''))
      | _ \<Rightarrow> file_info)"

definition update_status :: "job \<Rightarrow> string \<Rightarrow> job" where
  "update_status j now =
     (if completed j = total_j j then j\<lparr>status := ''completed'', end_time := Some now\<rparr>
      else if status j = ''pending'' then j\<lparr>status := ''processing''\<rparr>
      else j)"

text \<open>
  \<open>update_job_progress\<close> mutates the job in place, so what it did before an exception
  stays: the counter is incremented before the file is looked up. The result is the
  exception raised, if any, and the processor afterwards.
\<close>

definition update_job_progress ::
  "processor \<Rightarrow> string \<Rightarrow> int \<Rightarrow> pyval \<Rightarrow> pyval \<Rightarrow> string \<Rightarrow> exc option \<times> processor" where
  "update_job_progress p job_id file_index result error now =
     (case locks p job_id of
        None \<Rightarrow> (Some (KeyError job_id), p)
      | Some l \<Rightarrow>
        (case jobs p job_id of
           None \<Rightarrow> (Some (KeyError job_id), p)
         | Some job0 \<Rightarrow>
           (let job1 = job0\<lparr>completed := completed job0 + 1\<rparr> in
            case py_index (files job1) file_index of
              Inl e \<Rightarrow> (Some e, p\<lparr>jobs := (jobs p)(job_id \<mapsto> job1)\<rparr>)
            | Inr file_info \<Rightarrow>
              (let filename = filename_of file_info;
                   job2 = (if truthy result
                           then job1\<lparr>results := results job1 @
                                  [\<lparr>r_file_index = file_index, r_filename = filename,
                                    r_result = result\<rparr>]\<rparr>
                           else job1);
                   job3 = (if truthy error
                           then job2\<lparr>errors := errors job2 @
                                  [\<lparr>e_file_index = file_index, e_filename = filename,
                                    e_error = error\<rparr>]\<rparr>
                           else job2);
                   job4 = update_status job3 now
               in if total_j job4 = 0
                  then (Some ZeroDivisionError, p\<lparr>jobs := (jobs p)(job_id \<mapsto> job4)\<rparr>)
                  else (None, p\<lparr>jobs := (jobs p)(job_id \<mapsto>
                          job4\<lparr>progress :=
                            Some (real_of_int (completed job4) / real_of_int (total_j job4) * 100)\<rparr>)\<rparr>)))))"


text \<open>
  The first half of \<open>process_file\<close>'s \<open>try\<close> block: look the file up and call the
  analysis function, which returns a value or raises.
\<close>

definition analyze_file :: "processor \<Rightarrow> string \<Rightarrow> int \<Rightarrow> (pyval \<Rightarrow> exc + pyval) \<Rightarrow> exc + pyval" where
  "analyze_file p job_id file_index analyze_function =
     (case jobs p job_id of
        None \<Rightarrow> Inl (KeyError job_id)
      | Some j \<Rightarrow>
        (case py_index (files j) file_index of
           Inl e \<Rightarrow> Inl e
         | Inr file_info \<Rightarrow>
           analyze_function
             (case file_info of PDict d \<Rightarrow> dict_get d ''path'' file_info | _ \<Rightarrow> file_info)))"

text \<open>
  \<open>process_file\<close>: the successful update is itself inside the \<open>try\<close>, so an exception
  it raises is handled like one of the analysis function; an exception of the handler's
  own update propagates to the caller.
\<close>

definition process_file ::
  "processor \<Rightarrow> string \<Rightarrow> int \<Rightarrow> (pyval \<Rightarrow> exc + pyval) \<Rightarrow> string \<Rightarrow> exc option \<times> processor" where
  "process_file p job_id file_index analyze_function now =
     (case analyze_file p job_id file_index analyze_function of
        Inl e \<Rightarrow> update_job_progress p job_id file_index PNone (PStr (str_exc e)) now
      | Inr result \<Rightarrow>
        (case update_job_progress p job_id file_index result PNone now of
           (None, p') \<Rightarrow> (None, p')
         | (Some e, p') \<Rightarrow> update_job_progress p' job_id file_index PNone (PStr (str_exc e)) now))"


subsection \<open>The HTTP handler that creates jobs (main.py, \<open>create_batch_job\<close>)\<close>

text \<open>
  An upload has an optional file name and a content. \<open>save_upload_file\<close> writes the
  content to disk and returns the path; it is a parameter here, and may raise. The job
  identifier (a fresh UUID in the source) is an argument. The handler then starts the
  worker threads, which is not part of this model: the model ends with the response.
\<close>

record 'c upload =
  filename :: "string option"
  content :: 'c

record response =
  resp_job_id :: string
  resp_total_files :: nat
  resp_status :: string

fun collect_paths ::
  "('c upload \<Rightarrow> exc + string) \<Rightarrow> 'c upload list \<Rightarrow> pyval list \<Rightarrow> exc + pyval list" where
  "collect_paths save_upload_file [] file_paths = Inr file_paths"
| "collect_paths save_upload_file (video # videos) file_paths =
     (case filename video of
        None \<Rightarrow> collect_paths save_upload_file videos file_paths
      | Some n \<Rightarrow>
        if n = [] then collect_paths save_upload_file videos file_paths
        else (case save_upload_file video of
                Inl e \<Rightarrow> Inl e
              | Inr path \<Rightarrow>
                collect_paths save_upload_file videos
                  (file_paths @ [PDict [(''path'', PStr path), (''filename'', PStr n)]])))"

definition create_batch_job ::
  "('c upload \<Rightarrow> exc + string) \<Rightarrow> processor \<Rightarrow> string \<Rightarrow> 'c upload list \<Rightarrow> string \<Rightarrow>
   (exc + response) \<times> processor" where
  "create_batch_job save_upload_file p job_id videos now =
     (if videos = [] then (Inl (HTTPException 400 ''No video files provided''), p)
      else case collect_paths save_upload_file videos [] of
        Inl e \<Rightarrow> (Inl e, p)
      | Inr file_paths \<Rightarrow>
        if file_paths = [] then (Inl (HTTPException 400 ''No valid video files''), p)
        else (Inr \<lparr>resp_job_id = job_id, resp_total_files = length file_paths,
                    resp_status = ''pending''\<rparr>,
              snd (create_job p job_id file_paths now)))"

section \<open>Trust scoring (trust\_engine/scorer.py)\<close>

text \<open>
  Scores are Python floats; they are modelled as exact reals, so a comparison at a
  threshold is the comparison of the mathematical values.
\<close>

text \<open>\<open>sep.join(xs)\<close>.\<close>

fun join :: "string \<Rightarrow> string list \<Rightarrow> string" where
  "join sep [] = []"
| "join sep [x] = x"
| "join sep (x # y # ys) = x @ sep @ join sep (y # ys)"

definition signal_insights :: "real \<Rightarrow> real \<Rightarrow> real \<Rightarrow> string list" where
  "signal_insights vision audio temporal =
     (if temporal < 0.4 then [''high temporal inconsistency''] else []) @
     (if vision < 0.4 then [''visual artifacts detected''] else []) @
     (if audio < 0.4 then [''synthetic audio characteristics''] else [])"

text \<open>The weighted sum, with the weights \<open>{"vision": 0.4, "audio": 0.3, "temporal": 0.3}\<close>.\<close>

definition raw_score :: "real \<Rightarrow> real \<Rightarrow> real \<Rightarrow> real" where
  "raw_score vision audio temporal = vision * 0.4 + audio * 0.3 + temporal * 0.3"

text \<open>\<open>trust_score\<close> returns the triple (adjusted score, decision, reason).\<close>

definition trust_score :: "real \<Rightarrow> real \<Rightarrow> real \<Rightarrow> real \<Rightarrow> real \<times> string \<times> string" where
  "trust_score vision audio temporal quality =
     (let raw = raw_score vision audio temporal;
          (adjusted_score, decision, reason) =
            (if quality < 0.3 then
               (raw * 0.4, ''Ambiguous'',
                ''Very Low Quality Input - Cannot Make Reliable Assessment'')
             else if quality < 0.5 then
               (raw * 0.6, ''Ambiguous'', ''Low Quality Input - Limited Confidence'')
             else if quality < 0.7 then
               (let adjusted = raw * 0.85 in
                if adjusted > 0.65 then
                  (adjusted, ''Likely Real'', ''Moderate Quality - Signals Indicate Real Content'')
                else if adjusted < 0.35 then
                  (adjusted, ''Likely Fake'', ''Moderate Quality - Multiple Suspicious Signals'')
                else (adjusted, ''Ambiguous'', ''Moderate Quality - Mixed Signals''))
             else
               (let adjusted = raw in
                if adjusted > 0.7 then
                  (adjusted, ''Real'', ''High Quality Input - Strong Real Signals'')
                else if adjusted < 0.3 then
                  (adjusted, ''Fake'', ''High Quality Input - Strong Deepfake Signals'')
                else if adjusted > 0.55 then
                  (adjusted, ''Likely Real'', ''Good Quality - Signals Lean Toward Real'')
                else if adjusted < 0.45 then
                  (adjusted, ''Likely Fake'', ''Good Quality - Signals Lean Toward Fake'')
                else
                  (adjusted, ''Ambiguous'',
                   ''Good Quality - Balanced Signals, Cannot Determine'')));
          insights = signal_insights vision audio temporal
      in (adjusted_score, decision,
          if insights \<noteq> [] then reason @ '' ('' @ join '', '' insights @ '')'' else reason))"

section \<open>Report generation (trust\_engine/score\_fusion.py)\<close>

text \<open>\<open>str.capitalize\<close> on ASCII text: first character upper case, the rest lower case.\<close>

definition upper_char :: "char \<Rightarrow> char" where
  "upper_char c =
     (case map_of (zip ''abcdefghijklmnopqrstuvwxyz'' ''ABCDEFGHIJKLMNOPQRSTUVWXYZ'') c of
        None \<Rightarrow> c | Some u \<Rightarrow> u)"

definition lower_char :: "char \<Rightarrow> char" where
  "lower_char c =
     (case map_of (zip ''ABCDEFGHIJKLMNOPQRSTUVWXYZ'' ''abcdefghijklmnopqrstuvwxyz'') c of
        None \<Rightarrow> c | Some l \<Rightarrow> l)"

fun capitalize :: "string \<Rightarrow> string" where
  "capitalize [] = []"
| "capitalize (c # cs) = upper_char c # map lower_char cs"

text \<open>
  \<open>signals\<close> maps a signal name to that signal's result dictionary, of which only the
  key \<open>score\<close> is read: \<open>signals.get(k, {}).get("score", 0.5)\<close>.
\<close>

type_synonym signals = "string \<rightharpoonup> (string \<rightharpoonup> real)"

definition signal_score :: "signals \<Rightarrow> string \<Rightarrow> real" where
  "signal_score sigs k =
     (case sigs k of None \<Rightarrow> 0.5 | Some d \<Rightarrow> (case d ''score'' of None \<Rightarrow> 0.5 | Some v \<Rightarrow> v))"

record report =
  decision :: string
  confidence :: string
  reason :: string

text \<open>
  \<open>generate_report(trust_score, signals, quality_assessment)\<close>; the first parameter is
  written \<open>trust_score'\<close> here. The quality assessment is a parameter the body never
  reads.
\<close>

definition generate_report :: "real \<Rightarrow> signals \<Rightarrow> (string \<rightharpoonup> real) \<Rightarrow> report" where
  "generate_report trust_score' sigs quality_assessment =
     (let (dec, conf) =
            (if trust_score' \<ge> 0.7 then (''Likely Real'', ''high'')
             else if trust_score' \<ge> 0.55 then (''Possibly Real'', ''medium'')
             else if trust_score' \<ge> 0.45 then (''Ambiguous'', ''low'')
             else if trust_score' \<ge> 0.3 then (''Possibly Fake'', ''medium'')
             else (''Likely Fake'', ''high''));
          vision_score = signal_score sigs ''vision'';
          audio_score = signal_score sigs ''audio'';
          temporal_score = signal_score sigs ''temporal'';
          reasons =
            (if vision_score < 0.4 then [''visual artifacts detected'']
             else if vision_score > 0.7 then [''clean visual quality''] else []) @
            (if audio_score < 0.4 then [''synthetic audio patterns'']
             else if audio_score > 0.7 then [''natural audio characteristics''] else []) @
            (if temporal_score < 0.4 then [''temporal inconsistencies'']
             else if temporal_score > 0.7 then [''stable temporal patterns''] else []);
          reasons' = (if reasons = [] then [''mixed signals across analysis''] else reasons)
      in \<lparr>decision = dec, confidence = conf, reason = capitalize (join ''; '' reasons')\<rparr>)"

section \<open>Quality assessment (failure\_modes.py and score\_fusion.py)\<close>

text \<open>
  Both quality functions read pixels only through OpenCV and NumPy measurements. Those
  measurements are the fields of \<open>measures\<close>, functions of a frame \<open>'a\<close>; what the
  repository computes from them is modelled in full. A result dictionary is the list of
  its items in insertion order.
\<close>

record 'a measures =
  frame_shape :: "'a \<Rightarrow> nat \<times> nat"
  canny_mean :: "'a \<Rightarrow> real"
  gradient_variance :: "'a \<Rightarrow> real"
  median_noise :: "'a \<Rightarrow> real"
  laplacian_var :: "'a \<Rightarrow> real"
  gray_std :: "'a \<Rightarrow> real"
  gray_row_mean :: "'a \<Rightarrow> nat \<Rightarrow> real"

definition compression_level :: "'a measures \<Rightarrow> 'a \<Rightarrow> real" where
  "compression_level m frame =
     (let edge_density = canny_mean m frame / 255
      in if edge_density \<ge> 0.15 then 1 else edge_density / 0.15)"

definition blocking_artifacts :: "'a measures \<Rightarrow> 'a \<Rightarrow> real" where
  "blocking_artifacts m frame = 1 - min 1 (gradient_variance m frame / 10000)"

definition noise_level :: "'a measures \<Rightarrow> 'a \<Rightarrow> real" where
  "noise_level m frame =
     (let n = median_noise m frame
      in if n \<le> 10 then 1 else max 0 (1 - (n - 10) / 20))"

definition resolution_quality :: "'a measures \<Rightarrow> 'a \<Rightarrow> real" where
  "resolution_quality m frame =
     (let (height, width) = frame_shape m frame; pixels = height * width
      in if pixels \<ge> 1280 * 720 then 1
         else if pixels \<ge> 640 * 480 then 0.7
         else max 0.3 (real pixels / (640 * 480)))"

text \<open>\<open>np.mean\<close> of a non-empty list, and the slice \<open>xs[::k]\<close> for \<open>k \<ge> 1\<close>.\<close>

definition np_mean :: "real list \<Rightarrow> real" where
  "np_mean xs = sum_list xs / real (length xs)"

definition stride :: "nat \<Rightarrow> 'a list \<Rightarrow> 'a list" where
  "stride k xs = map (\<lambda>i. xs ! i) (filter (\<lambda>i. i mod k = 0) [0..<length xs])"

definition analyze_quality :: "'a measures \<Rightarrow> 'a list \<Rightarrow> (string \<times> real) list" where
  "analyze_quality m frames =
     (if frames = [] then
        [(''compression'', 0), (''blocking'', 0), (''noise'', 0), (''resolution'', 0),
         (''overall'', 0)]
      else
        (let sample_frames = take 5 (stride (max 1 (length frames div 5)) frames);
             compression = np_mean (map (compression_level m) sample_frames);
             blocking = np_mean (map (blocking_artifacts m) sample_frames);
             noise = np_mean (map (noise_level m) sample_frames);
             resolution = np_mean (map (resolution_quality m) sample_frames);
             overall = 0.3 * compression + 0.2 * blocking + 0.2 * noise + 0.3 * resolution
         in [(''compression'', compression), (''blocking'', blocking), (''noise'', noise),
             (''resolution'', resolution), (''overall'', overall)]))"

text \<open>
  \<open>assess_quality\<close> looks at the middle frame. Its blocking score divides by \<open>h / 8\<close>,
  which raises for a frame of height 0.
\<close>

definition assess_quality :: "'a measures \<Rightarrow> 'a list \<Rightarrow> exc + (string \<times> real) list" where
  "assess_quality m frames =
     (if frames = [] then Inr [(''overall'', 0.5)]
      else
        (let frame = frames ! (length frames div 2);
             (height, width) = frame_shape m frame;
             resolution_score = min 1 (real (width * height) / (1280 * 720));
             compression_score = min 1 (laplacian_var m frame / 500);
             noise = gray_std m frame / 255;
             noise_score = 1 - min 1 (noise * 3);
             block_diff =
               sum_list (map (\<lambda>i. \<bar>gray_row_mean m frame (i - 1) - gray_row_mean m frame i\<bar>)
                          (filter (\<lambda>i. i mod 8 = 0) [8..<height]))
         in if height = 0 then Inl ZeroDivisionError
            else
              (let blocking_score = 1 - min 1 (block_diff / (real height / 8) / 10);
                   overall = 0.3 * resolution_score + 0.3 * compression_score +
                             0.2 * noise_score + 0.2 * blocking_score
               in Inr [(''overall'', overall), (''resolution'', resolution_score),
                       (''compression'', compression_score), (''noise'', noise_score),
                       (''blocking'', blocking_score)])))"

section \<open>Adversarial robustness testing (trust\_engine/adversarial.py)\<close>

text \<open>
  Frames are NumPy arrays and the frame sequence is a Python list: objects that a
  function could write into. They live in a store: an address holds an array (\<open>Arr\<close>, with
  its pixel data of type \<open>'a\<close>) or a list of addresses (\<open>Lst\<close>). \<open>nxt\<close> is the next unused
  address, \<open>rng\<close> the state of NumPy's global random generator.
\<close>

type_synonym addr = nat

datatype 'a obj = Arr 'a | Lst "addr list"

record ('a, 'r) world =
  mem :: "addr \<rightharpoonup> 'a obj"
  nxt :: addr
  rng :: 'r

text \<open>
  Creating an object takes the next address. Reading an address as an array or as a list
  raises \<open>TypeError\<close> when the object there is of the other kind. \<open>list_append\<close> is
  \<open>xs.append(a)\<close>, the only write into an existing object that this module performs.
\<close>

definition alloc :: "('a, 'r) world \<Rightarrow> 'a obj \<Rightarrow> addr \<times> ('a, 'r) world" where
  "alloc w v = (nxt w, w\<lparr>mem := (mem w)(nxt w \<mapsto> v), nxt := Suc (nxt w)\<rparr>)"

definition get_arr :: "('a, 'r) world \<Rightarrow> addr \<Rightarrow> exc + 'a" where
  "get_arr w a =
     (case mem w a of Some (Arr x) \<Rightarrow> Inr x | _ \<Rightarrow> Inl (TypeError ''not an image array''))"

definition get_list :: "('a, 'r) world \<Rightarrow> addr \<Rightarrow> exc + addr list" where
  "get_list w a =
     (case mem w a of Some (Lst xs) \<Rightarrow> Inr xs | _ \<Rightarrow> Inl (TypeError ''not a list''))"

definition list_append :: "('a, 'r) world \<Rightarrow> addr \<Rightarrow> addr \<Rightarrow> exc + ('a, 'r) world" where
  "list_append w r a =
     (case mem w r of
        Some (Lst xs) \<Rightarrow> Inr (w\<lparr>mem := (mem w)(r \<mapsto> Lst (xs @ [a]))\<rparr>)
      | _ \<Rightarrow> Inl (TypeError ''not a list''))"

text \<open>
  An attack parameter is an integer or a float. \<open>py_int\<close> is \<open>int(x)\<close> on a float
  (truncation towards zero).
\<close>

datatype num = NInt int | NFloat real

fun to_real :: "num \<Rightarrow> real" where
  "to_real (NInt n) = real_of_int n"
| "to_real (NFloat x) = x"

fun num_neg :: "num \<Rightarrow> num" where
  "num_neg (NInt n) = NInt (- n)"
| "num_neg (NFloat x) = NFloat (- x)"

definition py_int :: "real \<Rightarrow> int" where
  "py_int x = (if 0 \<le> x then \<lfloor>x\<rfloor> else \<lceil>x\<rceil>)"

text \<open>
  The pixel arithmetic is done by OpenCV and NumPy. Each library call used by the module
  is a field of \<open>cvlib\<close>: a function of the pixel data of its arguments (and of the random
  state, for the two random draws), total on every array. Every call that returns an
  array returns a new one, which the model allocates; a slice is a view of its argument
  and is only read. Python lists of numbers (the encoder parameters) are not objects of
  the store.
\<close>

record ('a, 'r) cvlib =
  shape :: "'a \<Rightarrow> nat \<times> nat \<times> nat list"
  imencode :: "'a \<Rightarrow> num \<Rightarrow> 'a"
  imdecode :: "'a \<Rightarrow> 'a"
  random_normal :: "'r \<Rightarrow> num \<Rightarrow> nat list \<Rightarrow> 'a \<times> 'r"
  random_randint :: "'r \<Rightarrow> num \<Rightarrow> num \<Rightarrow> int \<times> 'r"
  astype_float32 :: "'a \<Rightarrow> 'a"
  astype_int16 :: "'a \<Rightarrow> 'a"
  astype_uint8 :: "'a \<Rightarrow> 'a"
  np_add :: "'a \<Rightarrow> 'a \<Rightarrow> 'a"
  np_add_scalar :: "'a \<Rightarrow> int \<Rightarrow> 'a"
  np_clip :: "'a \<Rightarrow> int \<Rightarrow> int \<Rightarrow> 'a"
  gaussian_blur :: "'a \<Rightarrow> num \<Rightarrow> 'a"
  resize :: "'a \<Rightarrow> int \<times> int \<Rightarrow> 'a"
  slice2 :: "'a \<Rightarrow> int \<times> int \<Rightarrow> int \<times> int \<Rightarrow> 'a"
  cv_split :: "'a \<Rightarrow> 'a \<times> 'a \<times> 'a"
  cv_merge :: "'a \<Rightarrow> 'a \<Rightarrow> 'a \<Rightarrow> 'a"

text \<open>
  A frame is an image: its shape is (height, width, further dimensions). \<open>full_shape\<close> is
  \<open>frame.shape\<close> and \<open>height_width\<close> is \<open>frame.shape[:2]\<close>.
\<close>

definition full_shape :: "('a, 'r) cvlib \<Rightarrow> 'a \<Rightarrow> nat list" where
  "full_shape lib x = (case shape lib x of (h, w, rest) \<Rightarrow> h # w # rest)"

definition height_width :: "('a, 'r) cvlib \<Rightarrow> 'a \<Rightarrow> int \<times> int" where
  "height_width lib x = (case shape lib x of (h, w, rest) \<Rightarrow> (int h, int w))"

text \<open>
  The attacks on one frame. Each returns the address of the attacked frame, or the
  exception raised, and the store afterwards.
\<close>

definition add_compression_artifacts ::
  "('a, 'r) cvlib \<Rightarrow> ('a, 'r) world \<Rightarrow> addr \<Rightarrow> num \<Rightarrow> (exc + addr) \<times> ('a, 'r) world" where
  "add_compression_artifacts lib w frame quality =
     (case get_arr w frame of
        Inl e \<Rightarrow> (Inl e, w)
      | Inr x \<Rightarrow>
        (let encoded = imencode lib x quality;
             (a1, w1) = alloc w (Arr encoded);
             compressed = imdecode lib encoded;
             (a2, w2) = alloc w1 (Arr compressed)
         in (Inr a2, w2)))"

definition add_gaussian_noise ::
  "('a, 'r) cvlib \<Rightarrow> ('a, 'r) world \<Rightarrow> addr \<Rightarrow> num \<Rightarrow> (exc + addr) \<times> ('a, 'r) world" where
  "add_gaussian_noise lib w frame sigma =
     (case get_arr w frame of
        Inl e \<Rightarrow> (Inl e, w)
      | Inr x \<Rightarrow>
        (let (drawn, g) = random_normal lib (rng w) sigma (full_shape lib x);
             (a1, w1) = alloc (w\<lparr>rng := g\<rparr>) (Arr drawn);
             noise = astype_float32 lib drawn;
             (a2, w2) = alloc w1 (Arr noise);
             x32 = astype_float32 lib x;
             (a3, w3) = alloc w2 (Arr x32);
             noisy = np_add lib x32 noise;
             (a4, w4) = alloc w3 (Arr noisy);
             clipped = np_clip lib noisy 0 255;
             (a5, w5) = alloc w4 (Arr clipped);
             noisy8 = astype_uint8 lib clipped;
             (a6, w6) = alloc w5 (Arr noisy8)
         in (Inr a6, w6)))"

definition add_blur ::
  "('a, 'r) cvlib \<Rightarrow> ('a, 'r) world \<Rightarrow> addr \<Rightarrow> num \<Rightarrow> (exc + addr) \<times> ('a, 'r) world" where
  "add_blur lib w frame kernel_size =
     (case get_arr w frame of
        Inl e \<Rightarrow> (Inl e, w)
      | Inr x \<Rightarrow>
        (let (a1, w1) = alloc w (Arr (gaussian_blur lib x kernel_size)) in (Inr a1, w1)))"

definition resize_and_upscale ::
  "('a, 'r) cvlib \<Rightarrow> ('a, 'r) world \<Rightarrow> addr \<Rightarrow> num \<Rightarrow> (exc + addr) \<times> ('a, 'r) world" where
  "resize_and_upscale lib w frame scale =
     (case get_arr w frame of
        Inl e \<Rightarrow> (Inl e, w)
      | Inr x \<Rightarrow>
        (let (h, wd) = height_width lib x;
             small = resize lib x (py_int (real_of_int wd * to_real scale),
                                   py_int (real_of_int h * to_real scale));
             (a1, w1) = alloc w (Arr small);
             restored = resize lib small (wd, h);
             (a2, w2) = alloc w1 (Arr restored)
         in (Inr a2, w2)))"

definition crop_and_pad ::
  "('a, 'r) cvlib \<Rightarrow> ('a, 'r) world \<Rightarrow> addr \<Rightarrow> num \<Rightarrow> (exc + addr) \<times> ('a, 'r) world" where
  "crop_and_pad lib w frame crop_percent =
     (case get_arr w frame of
        Inl e \<Rightarrow> (Inl e, w)
      | Inr x \<Rightarrow>
        (let (h, wd) = height_width lib x;
             crop_h = py_int (real_of_int h * to_real crop_percent);
             crop_w = py_int (real_of_int wd * to_real crop_percent);
             cropped = slice2 lib x (crop_h, h - crop_h) (crop_w, wd - crop_w);
             padded = resize lib cropped (wd, h);
             (a1, w1) = alloc w (Arr padded)
         in (Inr a1, w1)))"

definition shift_channel ::
  "('a, 'r) cvlib \<Rightarrow> ('a, 'r) world \<Rightarrow> 'a \<Rightarrow> num \<Rightarrow> 'a \<times> ('a, 'r) world" where
  "shift_channel lib w c shift_amount =
     (let c16 = astype_int16 lib c;
          (a1, w1) = alloc w (Arr c16);
          (d, g) = random_randint lib (rng w1) (num_neg shift_amount) shift_amount;
          shifted = np_add_scalar lib c16 d;
          (a2, w2) = alloc (w1\<lparr>rng := g\<rparr>) (Arr shifted);
          clipped = np_clip lib shifted 0 255;
          (a3, w3) = alloc w2 (Arr clipped);
          c8 = astype_uint8 lib clipped;
          (a4, w4) = alloc w3 (Arr c8)
      in (c8, w4))"

definition add_color_shift ::
  "('a, 'r) cvlib \<Rightarrow> ('a, 'r) world \<Rightarrow> addr \<Rightarrow> num \<Rightarrow> (exc + addr) \<times> ('a, 'r) world" where
  "add_color_shift lib w frame shift_amount =
     (case get_arr w frame of
        Inl e \<Rightarrow> (Inl e, w)
      | Inr x \<Rightarrow>
        (let (b, g, r) = cv_split lib x;
             (ab, w1) = alloc w (Arr b);
             (ag, w2) = alloc w1 (Arr g);
             (ar, w3) = alloc w2 (Arr r);
             (b', w4) = shift_channel lib w3 b shift_amount;
             (g', w5) = shift_channel lib w4 g shift_amount;
             (r', w6) = shift_channel lib w5 r shift_amount;
             (a, w7) = alloc w6 (Arr (cv_merge lib b' g' r'))
         in (Inr a, w7)))"

text \<open>The table of attack parameters, and its double lookup (\<open>KeyError\<close> on a miss).\<close>

definition intensity_params :: "(string \<times> (string \<times> num) list) list" where
  "intensity_params =
     [(''compression'', [(''low'', NInt 80), (''medium'', NInt 50), (''high'', NInt 20)]),
      (''noise'', [(''low'', NInt 10), (''medium'', NInt 25), (''high'', NInt 50)]),
      (''blur'', [(''low'', NInt 3), (''medium'', NInt 5), (''high'', NInt 9)]),
      (''resolution'', [(''low'', NFloat 0.8), (''medium'', NFloat 0.5), (''high'', NFloat 0.3)]),
      (''crop'', [(''low'', NFloat 0.1), (''medium'', NFloat 0.2), (''high'', NFloat 0.35)]),
      (''color'', [(''low'', NInt 10), (''medium'', NInt 20), (''high'', NInt 40)])]"

definition lookup_param :: "string \<Rightarrow> string \<Rightarrow> exc + num" where
  "lookup_param attack_type intensity =
     (case map_of intensity_params attack_type of
        None \<Rightarrow> Inl (KeyError attack_type)
      | Some row \<Rightarrow>
        (case map_of row intensity of
           None \<Rightarrow> Inl (KeyError intensity)
         | Some param \<Rightarrow> Inr param))"

definition attack_frame ::
  "('a, 'r) cvlib \<Rightarrow> ('a, 'r) world \<Rightarrow> addr \<Rightarrow> string \<Rightarrow> num \<Rightarrow> (exc + addr) \<times> ('a, 'r) world" where
  "attack_frame lib w frame attack_type param =
     (if attack_type = ''compression'' then add_compression_artifacts lib w frame param
      else if attack_type = ''noise'' then add_gaussian_noise lib w frame param
      else if attack_type = ''blur'' then add_blur lib w frame param
      else if attack_type = ''resolution'' then resize_and_upscale lib w frame param
      else if attack_type = ''crop'' then crop_and_pad lib w frame param
      else if attack_type = ''color'' then add_color_shift lib w frame param
      else (Inr frame, w))"

text \<open>
  The loop of \<open>apply_adversarial_attack\<close> over the frames, appending each attacked frame
  to the list \<open>attacked_frames\<close>. The frames iterated over are read from the input list
  once, before the loop.
\<close>

fun attack_loop ::
  "('a, 'r) cvlib \<Rightarrow> string \<Rightarrow> num \<Rightarrow> addr \<Rightarrow> ('a, 'r) world \<Rightarrow> addr list \<Rightarrow>
   exc option \<times> ('a, 'r) world" where
  "attack_loop lib attack_type param attacked_frames w [] = (None, w)"
| "attack_loop lib attack_type param attacked_frames w (frame # rest) =
     (case attack_frame lib w frame attack_type param of
        (Inl e, w1) \<Rightarrow> (Some e, w1)
      | (Inr attacked, w1) \<Rightarrow>
        (case list_append w1 attacked_frames attacked of
           Inl e \<Rightarrow> (Some e, w1)
         | Inr w2 \<Rightarrow> attack_loop lib attack_type param attacked_frames w2 rest))"

definition apply_adversarial_attack ::
  "('a, 'r) cvlib \<Rightarrow> ('a, 'r) world \<Rightarrow> addr \<Rightarrow> string \<Rightarrow> string \<Rightarrow> (exc + addr) \<times> ('a, 'r) world" where
  "apply_adversarial_attack lib w frames attack_type intensity =
     (case lookup_param attack_type intensity of
        Inl e \<Rightarrow> (Inl e, w)
      | Inr param \<Rightarrow>
        (let (attacked_frames, w1) = alloc w (Lst []) in
         case get_list w1 frames of
           Inl e \<Rightarrow> (Inl e, w1)
         | Inr fs \<Rightarrow>
           (case attack_loop lib attack_type param attacked_frames w1 fs of
              (Some e, w2) \<Rightarrow> (Inl e, w2)
            | (None, w2) \<Rightarrow> (Inr attacked_frames, w2))))"

text \<open>
  The scoring function is supplied by the caller. It is modelled as a function of the
  pixel data of the frames it is given, returning a score or raising; \<open>call\<close> reads the
  frames out of the store and applies it.
\<close>

fun get_arrs :: "('a, 'r) world \<Rightarrow> addr list \<Rightarrow> exc + 'a list" where
  "get_arrs w [] = Inr []"
| "get_arrs w (a # as) =
     (case get_arr w a of
        Inl e \<Rightarrow> Inl e
      | Inr x \<Rightarrow> (case get_arrs w as of Inl e \<Rightarrow> Inl e | Inr xs \<Rightarrow> Inr (x # xs)))"

definition contents :: "('a, 'r) world \<Rightarrow> addr \<Rightarrow> exc + 'a list" where
  "contents w frames = (case get_list w frames of Inl e \<Rightarrow> Inl e | Inr fs \<Rightarrow> get_arrs w fs)"

definition call :: "('a list \<Rightarrow> exc + real) \<Rightarrow> ('a, 'r) world \<Rightarrow> addr \<Rightarrow> exc + real" where
  "call analyze_function w frames =
     (case contents w frames of Inl e \<Rightarrow> Inl e | Inr xs \<Rightarrow> analyze_function xs)"

text \<open>
  The result of \<open>test_robustness\<close>: the original score and, per attack name, the score
  and the degradation. Assigning \<open>results['attacks'][name]\<close> is \<open>AList.update\<close>.
\<close>

record attack_entry =
  score :: real
  degradation :: real

record robustness =
  original :: real
  attacks :: "(string \<times> attack_entry) list"

definition attack_catalog :: "(string \<times> string) list" where
  "attack_catalog =
     [(''compression'', ''low''), (''compression'', ''medium''), (''compression'', ''high''),
      (''noise'', ''medium''), (''blur'', ''medium''), (''resolution'', ''medium''),
      (''crop'', ''medium'')]"

fun run_attacks ::
  "('a, 'r) cvlib \<Rightarrow> ('a list \<Rightarrow> exc + real) \<Rightarrow> real \<Rightarrow> addr \<Rightarrow> ('a, 'r) world \<Rightarrow>
   (string \<times> string) list \<Rightarrow> (string \<times> attack_entry) list \<Rightarrow>
   (exc + (string \<times> attack_entry) list) \<times> ('a, 'r) world" where
  "run_attacks lib analyze_function orig frames w [] acc = (Inr acc, w)"
| "run_attacks lib analyze_function orig frames w ((attack_type, intensity) # rest) acc =
     (case apply_adversarial_attack lib w frames attack_type intensity of
        (Inl e, w1) \<Rightarrow> (Inl e, w1)
      | (Inr attacked_frames, w1) \<Rightarrow>
        (case call analyze_function w1 attacked_frames of
           Inl e \<Rightarrow> (Inl e, w1)
         | Inr sc \<Rightarrow>
           run_attacks lib analyze_function orig frames w1 rest
             (AList.update (attack_type @ ''_'' @ intensity)
                \<lparr>score = sc, degradation = \<bar>orig - sc\<bar>\<rparr> acc)))"

definition test_robustness ::
  "('a, 'r) cvlib \<Rightarrow> ('a list \<Rightarrow> exc + real) \<Rightarrow> ('a, 'r) world \<Rightarrow> addr \<Rightarrow>
   (exc + robustness) \<times> ('a, 'r) world" where
  "test_robustness lib analyze_function w frames =
     (case call analyze_function w frames of
        Inl e \<Rightarrow> (Inl e, w)
      | Inr orig \<Rightarrow>
        (case run_attacks lib analyze_function orig frames w attack_catalog [] of
           (Inl e, w') \<Rightarrow> (Inl e, w')
         | (Inr acc, w') \<Rightarrow> (Inr \<lparr>original = orig, attacks = acc\<rparr>, w')))"

subsection \<open>Predicates on stores\<close>

text \<open>
  \<open>extends w w'\<close>: every object of \<open>w\<close> is in \<open>w'\<close>, unchanged. \<open>grows out w w'\<close>: the same,
  but for the object at \<open>out\<close>. \<open>valid_frames w frames\<close>: \<open>frames\<close> is the address of a
  list of arrays in \<open>w\<close>. \<open>fresh_arr w res\<close>: the result \<open>res\<close> of an attack on one frame
  extends \<open>w\<close> and, when it is an address, that address holds a new array.
\<close>

definition extends :: "('a, 'r) world \<Rightarrow> ('a, 'r) world \<Rightarrow> bool" where
  "extends w w' = (nxt w \<le> nxt w' \<and> (\<forall>a<nxt w. mem w' a = mem w a))"

definition grows :: "addr \<Rightarrow> ('a, 'r) world \<Rightarrow> ('a, 'r) world \<Rightarrow> bool" where
  "grows out w w' = (nxt w \<le> nxt w' \<and> (\<forall>a<nxt w. a \<noteq> out \<longrightarrow> mem w' a = mem w a))"

definition is_arr :: "('a, 'r) world \<Rightarrow> addr \<Rightarrow> bool" where
  "is_arr w a = (case mem w a of Some (Arr x) \<Rightarrow> True | _ \<Rightarrow> False)"

definition valid_frames :: "('a, 'r) world \<Rightarrow> addr \<Rightarrow> bool" where
  "valid_frames w frames =
     (frames < nxt w \<and>
      (case mem w frames of
         Some (Lst fs) \<Rightarrow> \<forall>a\<in>set fs. a < nxt w \<and> is_arr w a
       | _ \<Rightarrow> False))"

definition fresh_arr :: "('a, 'r) world \<Rightarrow> (exc + addr) \<times> ('a, 'r) world \<Rightarrow> bool" where
  "fresh_arr w res =
     (case res of
        (Inl e, w') \<Rightarrow> extends w w'
      | (Inr b, w') \<Rightarrow> extends w w' \<and> nxt w \<le> b \<and> b < nxt w' \<and> is_arr w' b)"

text \<open>
  The attack types of the catalog, the name of a catalog entry (\<open>f"{attack_type}_{intensity}"\<close>),
  and the keys of a dictionary after an assignment to key \<open>k\<close>.
\<close>

definition catalog_type :: "string \<Rightarrow> bool" where
  "catalog_type t = (t \<in> set [''compression'', ''noise'', ''blur'', ''resolution'', ''crop''])"



text \<open>
  The arguments the scoring function is called with in the loop of \<open>test_robustness\<close>,
  attack by attack, for as long as the attacks themselves succeed.
\<close>

fun attacked_contents ::
  "('a, 'r) cvlib \<Rightarrow> ('a, 'r) world \<Rightarrow> addr \<Rightarrow> (string \<times> string) list \<Rightarrow> 'a list list" where
  "attacked_contents lib w frames [] = []"
| "attacked_contents lib w frames ((attack_type, intensity) # rest) =
     (case apply_adversarial_attack lib w frames attack_type intensity of
        (Inl e, w1) \<Rightarrow> []
      | (Inr attacked_frames, w1) \<Rightarrow>
        (case contents w1 attacked_frames of
           Inl e \<Rightarrow> []
         | Inr xs \<Rightarrow> xs # attacked_contents lib w1 frames rest))"

section \<open>Concrete inputs\<close>

text \<open>
  A small library and store on which the functions above can be run: a frame is a
  number, compression adds 2 to it, blurring makes it 0 and resizing keeps it. The
  store holds two frames, 10 and 20, and the list of both at address 2. \<open>score_sum\<close>
  scores a frame list by its sum; \<open>score_strict\<close> does the same but raises on a frame 0.
\<close>

definition lib0 :: "(nat, nat) cvlib" where
  "lib0 = \<lparr>shape = (\<lambda>x. (4, 4, [3])), imencode = (\<lambda>x q. x + 1), imdecode = (\<lambda>x. x + 1),
     random_normal = (\<lambda>g s sh. (g, Suc g)), random_randint = (\<lambda>g lo hi. (0, Suc g)),
     astype_float32 = (\<lambda>x. x), astype_int16 = (\<lambda>x. x), astype_uint8 = (\<lambda>x. x),
     np_add = (\<lambda>x y. x + y), np_add_scalar = (\<lambda>x d. x), np_clip = (\<lambda>x lo hi. min x 255),
     gaussian_blur = (\<lambda>x k. 0), resize = (\<lambda>x d. x), slice2 = (\<lambda>x r c. x),
     cv_split = (\<lambda>x. (x, x, x)), cv_merge = (\<lambda>b g r. b)\<rparr>"

definition w0 :: "(nat, nat) world" where
  "w0 = \<lparr>mem = [0 \<mapsto> Arr 10, 1 \<mapsto> Arr 20, 2 \<mapsto> Lst [0, 1]], nxt = 3, rng = 7\<rparr>"


definition score_strict :: "nat list \<Rightarrow> exc + real" where
  "score_strict xs =
     (if 0 \<in> set xs then Inl (Raised ''blank frame'') else Inr (real (sum_list xs) / 100))"

text \<open>A processor with one job of one file, and two analysis functions that end badly.\<close>

definition p1 :: processor where
  "p1 = snd (create_job (init_processor 3) ''job-1'' [PStr ''a.mp4''] ''t0'')"

definition raises_silently :: "pyval \<Rightarrow> exc + pyval" where
  "raises_silently path = Inl (Raised [])"

definition returns_nothing :: "pyval \<Rightarrow> exc + pyval" where
  "returns_nothing path = Inr PNone"

text \<open>Signals and a quality assessment for the report: all 0.2, overall quality 0.2.\<close>

definition sigs0 :: signals where
  "sigs0 = [''vision'' \<mapsto> [''score'' \<mapsto> 0.2], ''audio'' \<mapsto> [''score'' \<mapsto> 0.2],
            ''temporal'' \<mapsto> [''score'' \<mapsto> 0.2]]"

definition quality0 :: "string \<rightharpoonup> real" where
  "quality0 = [''overall'' \<mapsto> 0.2]"

text \<open>An upload without a file name, and a way to save uploads.\<close>

definition unnamed_upload :: "nat upload" where
  "unnamed_upload = \<lparr>filename = None, content = 0\<rparr>"

definition save0 :: "nat upload \<Rightarrow> exc + string" where
  "save0 u = Inr ''uploads/x.mp4''"

section \<open>Batch processor: properties\<close>





text \<open>
  What one update does to a job when the job exists, the index is in range and the job
  has files: the counter goes up by one, and an entry is appended for a truthy result
  and for a truthy error, independently of each other.
\<close>

lemma update_job_progress_counts:
  assumes "jobs p job_id = Some j" and "locks p job_id = Some l"
    and "py_index (files j) i = Inr file_info" and "total_j j \<noteq> 0"
  shows "\<exists>j'. jobs (snd (update_job_progress p job_id i r e now)) job_id = Some j' \<and>
           completed j' = completed j + 1 \<and>
           length (results j') = length (results j) + (if truthy r then 1 else 0) \<and>
           length (errors j') = length (errors j) + (if truthy e then 1 else 0) \<and>
           status j' = (if completed j + 1 = total_j j then ''completed''
                        else if status j = ''pending'' then ''processing'' else status j)"
  using assms by (simp add: update_job_progress_def update_status_def Let_def)

text \<open>
  Claim C1: after every progress update of a job, also the updates \<open>process_file\<close> makes
  when the analysis function has returned or raised, \<open>completed\<close> is the number of results
  plus the number of errors, and the status is \<open>completed\<close> exactly when \<open>completed\<close> is
  \<open>total\<close>. The source counts every update but records an entry only for a truthy result
  or error. For a job of one file whose analysis raises an exception with an empty
  message, or returns \<open>None\<close>, \<open>process_file\<close> leaves the job completed with
  \<open>completed = 1\<close> and no result and no error.
\<close>

theorem process_file_loses_empty_outcome:
  "map_option (\<lambda>j. (completed j, length (results j), length (errors j), status j))
     (jobs (snd (process_file p1 ''job-1'' 0 raises_silently ''t1'')) ''job-1'') =
     Some (1, 0, 0, ''completed'') \<and>
   map_option (\<lambda>j. (completed j, length (results j), length (errors j), status j))
     (jobs (snd (process_file p1 ''job-1'' 0 returns_nothing ''t1'')) ''job-1'') =
     Some (1, 0, 0, ''completed'')"
  by (simp add: p1_def raises_silently_def returns_nothing_def process_file_def analyze_file_def
      update_job_progress_def create_job_def init_processor_def py_index_def filename_of_def
      update_status_def Let_def)



text \<open>
  Claim C9: an empty batch is rejected before a job is created. As stated of the
  orchestrator this fails: \<open>create_job\<close> checks nothing and, given an empty file list,
  stores a pending job with \<open>total = 0\<close>.
\<close>

theorem create_job_accepts_empty_batch:
  "jobs (snd (create_job (init_processor 3) ''job-0'' [] ''t0'')) ''job-0'' =
     Some (fst (create_job (init_processor 3) ''job-0'' [] ''t0'')) \<and>
   total_j (fst (create_job (init_processor 3) ''job-0'' [] ''t0'')) = 0 \<and>
   status (fst (create_job (init_processor 3) ''job-0'' [] ''t0'')) = ''pending''"
  by (simp add: create_job_def Let_def)

lemma collect_paths_unnamed:
  "\<forall>v\<in>set videos. filename v = None \<or> filename v = Some [] \<Longrightarrow>
     collect_paths save videos acc = Inr acc"
  by (induction videos arbitrary: acc) auto

text \<open>
  Claim C9, amended: the rejection is the HTTP handler's. \<open>create_batch_job\<close> answers a
  request that has no upload with a file name (in particular an empty one) with status
  400 and leaves the processor as it was, so no job is created on that path; \<open>create_job\<close>
  itself, called with an empty file list, creates a pending job with \<open>total = 0\<close>.
\<close>

theorem empty_batch_rejected_by_handler:
  "((\<forall>v\<in>set videos. filename v = None \<or> filename v = Some []) \<longrightarrow>
      (\<exists>d. create_batch_job save p job_id videos now = (Inl (HTTPException 400 d), p))) \<and>
   jobs (snd (create_job p job_id [] now)) job_id = Some (fst (create_job p job_id [] now)) \<and>
   total_j (fst (create_job p job_id [] now)) = 0 \<and>
   completed (fst (create_job p job_id [] now)) = 0 \<and>
   status (fst (create_job p job_id [] now)) = ''pending''"
  by (auto simp: create_batch_job_def collect_paths_unnamed create_job_def Let_def)

theorem empty_batch_rejected_by_handler_witness:
  "filename unnamed_upload = None \<and>
   create_batch_job save0 (init_processor 3) ''job-0'' [unnamed_upload] ''t0'' =
     (Inl (HTTPException 400 ''No valid video files''), init_processor 3) \<and>
   create_batch_job save0 (init_processor 3) ''job-0'' [] ''t0'' =
     (Inl (HTTPException 400 ''No video files provided''), init_processor 3) \<and>
   jobs (snd (create_job (init_processor 3) ''job-0'' [] ''t0'')) ''job-0'' =
     Some (fst (create_job (init_processor 3) ''job-0'' [] ''t0''))"
  using empty_batch_rejected_by_handler [of "[unnamed_upload]" save0 "init_processor 3" "''job-0''" "''t0''"]
  by (simp add: unnamed_upload_def create_batch_job_def)

section \<open>Trust scoring and reports: properties\<close>

lemma raw_score_weights:
  "raw_score vision audio temporal = 0.4 * vision + 0.3 * audio + 0.3 * temporal"
  by (simp add: raw_score_def)

text \<open>
  Claim C2: for a quality of at least 0.7 the score \<open>trust_score\<close> returns is the
  undampened weighted sum \<open>0.4 * vision + 0.3 * audio + 0.3 * temporal\<close>, and the decision
  is read off that score in five bands: above 0.7 \<open>Real\<close>, below 0.3 \<open>Fake\<close>, above 0.55
  \<open>Likely Real\<close>, below 0.45 \<open>Likely Fake\<close>, otherwise \<open>Ambiguous\<close>. It holds for all
  signal values, in particular for those in the unit interval.
\<close>

theorem trust_score_full_quality:
  "0.7 \<le> quality \<Longrightarrow>
     fst (trust_score vision audio temporal quality) =
       0.4 * vision + 0.3 * audio + 0.3 * temporal \<and>
     fst (snd (trust_score vision audio temporal quality)) =
       (if fst (trust_score vision audio temporal quality) > 0.7 then ''Real''
        else if fst (trust_score vision audio temporal quality) < 0.3 then ''Fake''
        else if fst (trust_score vision audio temporal quality) > 0.55 then ''Likely Real''
        else if fst (trust_score vision audio temporal quality) < 0.45 then ''Likely Fake''
        else ''Ambiguous'')"
  by (simp add: trust_score_def raw_score_def Let_def)

theorem trust_score_full_quality_witness:
  "(0.7 :: real) \<le> 0.9 \<and>
   fst (trust_score 0.8 0.8 0.8 0.9) = 0.8 \<and>
   fst (snd (trust_score 0.8 0.8 0.8 0.9)) = ''Real'' \<and>
   fst (trust_score 0.5 0.6 0.4 0.7) = 0.5 \<and>
   fst (snd (trust_score 0.5 0.6 0.4 0.7)) = ''Ambiguous''"
  using trust_score_full_quality [of "0.9" "0.8" "0.8" "0.8"]
    trust_score_full_quality [of "0.7" "0.5" "0.6" "0.4"]
  by simp

text \<open>
  Claim C3: with \<open>raw = 0.4 * vision + 0.3 * audio + 0.3 * temporal\<close>, a quality below 0.3
  gives the score \<open>raw * 0.4\<close> and the decision \<open>Ambiguous\<close>; a quality from 0.3 up to but
  not including 0.5 gives \<open>raw * 0.6\<close> and \<open>Ambiguous\<close>; a quality from 0.5 up to but not
  including 0.7 gives \<open>raw * 0.85\<close> and \<open>Likely Real\<close> above 0.65, \<open>Likely Fake\<close> below 0.35,
  \<open>Ambiguous\<close> otherwise; and a quality of exactly 0.3, 0.5 or 0.7 falls in the tier
  above it.
\<close>

theorem trust_score_dampening_tiers:
  "raw_score vision audio temporal = 0.4 * vision + 0.3 * audio + 0.3 * temporal \<and>
   (quality < 0.3 \<longrightarrow>
      fst (trust_score vision audio temporal quality) = raw_score vision audio temporal * 0.4 \<and>
      fst (snd (trust_score vision audio temporal quality)) = ''Ambiguous'') \<and>
   (0.3 \<le> quality \<and> quality < 0.5 \<longrightarrow>
      fst (trust_score vision audio temporal quality) = raw_score vision audio temporal * 0.6 \<and>
      fst (snd (trust_score vision audio temporal quality)) = ''Ambiguous'') \<and>
   (0.5 \<le> quality \<and> quality < 0.7 \<longrightarrow>
      fst (trust_score vision audio temporal quality) = raw_score vision audio temporal * 0.85 \<and>
      fst (snd (trust_score vision audio temporal quality)) =
        (if raw_score vision audio temporal * 0.85 > 0.65 then ''Likely Real''
         else if raw_score vision audio temporal * 0.85 < 0.35 then ''Likely Fake''
         else ''Ambiguous'')) \<and>
   (quality = 0.3 \<longrightarrow>
      fst (trust_score vision audio temporal quality) = raw_score vision audio temporal * 0.6) \<and>
   (quality = 0.5 \<longrightarrow>
      fst (trust_score vision audio temporal quality) = raw_score vision audio temporal * 0.85) \<and>
   (quality = 0.7 \<longrightarrow>
      fst (trust_score vision audio temporal quality) = raw_score vision audio temporal)"
  by (simp add: trust_score_def raw_score_weights Let_def)

theorem trust_score_dampening_tiers_witness:
  "fst (trust_score 0.2 0.2 0.2 0.2) = 0.08 \<and>
   fst (snd (trust_score 0.2 0.2 0.2 0.2)) = ''Ambiguous'' \<and>
   fst (trust_score 0.5 0.5 0.5 0.4) = 0.3 \<and>
   fst (snd (trust_score 0.5 0.5 0.5 0.4)) = ''Ambiguous'' \<and>
   fst (trust_score 1 1 1 0.6) = 0.85 \<and>
   fst (snd (trust_score 1 1 1 0.6)) = ''Likely Real'' \<and>
   fst (trust_score 1 1 1 0.3) = 0.6 \<and>
   fst (trust_score 1 1 1 0.5) = 0.85 \<and>
   fst (trust_score 1 1 1 0.7) = 1"
  using trust_score_dampening_tiers [of "0.2" "0.2" "0.2" "0.2"]
    trust_score_dampening_tiers [of "0.5" "0.5" "0.5" "0.4"]
    trust_score_dampening_tiers [of 1 1 1 "0.6"]
    trust_score_dampening_tiers [of 1 1 1 "0.3"]
    trust_score_dampening_tiers [of 1 1 1 "0.5"]
    trust_score_dampening_tiers [of 1 1 1 "0.7"]
  by simp

text \<open>
  Claim C4: the result carries a confidence level that depends on the quality tier: low
  or medium whenever the quality is below 0.5. As stated this fails. \<open>trust_score\<close>
  returns a score, a decision and a reason, and no confidence level; the level comes
  from \<open>generate_report\<close>, which looks at the score only. For signals of 0.2 and a quality
  of 0.2 the adjusted score is 0.08, and the report on it, for that quality, says \<open>high\<close>.
\<close>

theorem report_confidence_high_at_lowest_tier:
  "quality0 ''overall'' = Some 0.2 \<and>
   fst (trust_score 0.2 0.2 0.2 0.2) = 0.08 \<and>
   confidence (generate_report (fst (trust_score 0.2 0.2 0.2 0.2)) sigs0 quality0) = ''high''"
  by (simp add: quality0_def trust_score_def raw_score_def generate_report_def Let_def)

text \<open>
  Claim C4, amended: the confidence level of a report is one of \<open>high\<close>, \<open>medium\<close> and
  \<open>low\<close> and is determined by the score alone, whatever the signals and the quality
  assessment: \<open>high\<close> for a score of at least 0.7 or below 0.3, \<open>medium\<close> for a score of at
  least 0.55 or below 0.45 otherwise, and \<open>low\<close> in between.
\<close>

theorem report_confidence_by_score:
  "confidence (generate_report s sigs qa) =
     (if 0.7 \<le> s \<or> s < 0.3 then ''high''
      else if 0.55 \<le> s \<or> s < 0.45 then ''medium''
      else ''low'') \<and>
   confidence (generate_report s sigs qa) \<in> {''high'', ''medium'', ''low''} \<and>
   confidence (generate_report s sigs qa) = confidence (generate_report s sigs' qa')"
  by (simp add: generate_report_def Let_def)

theorem report_confidence_by_score_witness:
  "confidence (generate_report 0.08 sigs0 quality0) = ''high'' \<and>
   confidence (generate_report 0.7 sigs0 quality0) = ''high'' \<and>
   confidence (generate_report 0.6 sigs0 quality0) = ''medium'' \<and>
   confidence (generate_report 0.5 sigs0 quality0) = ''low''"
  using report_confidence_by_score [of "0.08" sigs0 quality0]
    report_confidence_by_score [of "0.7" sigs0 quality0]
    report_confidence_by_score [of "0.6" sigs0 quality0]
    report_confidence_by_score [of "0.5" sigs0 quality0]
  by simp

section \<open>Quality assessment: properties\<close>

text \<open>
  Claim C8: both quality functions return a result for the empty frame list, and the
  results disagree: \<open>analyze_quality\<close> gives an overall quality of 0.0 (with every
  component 0.0), \<open>assess_quality\<close> gives an overall quality of 0.5 (and no component).
\<close>

theorem empty_frames_quality_fallbacks:
  "analyze_quality m [] =
     [(''compression'', 0), (''blocking'', 0), (''noise'', 0), (''resolution'', 0),
      (''overall'', 0)] \<and>
   map_of (analyze_quality m []) ''overall'' = Some 0 \<and>
   assess_quality m [] = Inr [(''overall'', 0.5)]"
  by (simp add: analyze_quality_def assess_quality_def)

section \<open>Adversarial robustness testing: properties\<close>


subsection \<open>Attacks on one frame only create objects\<close>

lemma extends_refl: "extends w w"
  by (simp add: extends_def)

lemma extends_trans: "extends w1 w2 \<Longrightarrow> extends w2 w3 \<Longrightarrow> extends w1 w3"
  by (auto simp: extends_def)

lemma is_arr_get_arr: "is_arr w a \<longleftrightarrow> (\<exists>x. get_arr w a = Inr x)"
  by (auto simp: is_arr_def get_arr_def split: option.splits obj.splits)

lemma extends_is_arr: "extends w w' \<Longrightarrow> a < nxt w \<Longrightarrow> is_arr w a \<Longrightarrow> is_arr w' a"
  by (simp add: extends_def is_arr_def)

lemma add_compression_artifacts_fresh: "fresh_arr w (add_compression_artifacts lib w frame q)"
  by (cases "get_arr w frame")
     (simp_all add: fresh_arr_def add_compression_artifacts_def alloc_def extends_def is_arr_def Let_def
      case_prod_beta)

lemma add_gaussian_noise_fresh: "fresh_arr w (add_gaussian_noise lib w frame q)"
  by (cases "get_arr w frame")
     (simp_all add: fresh_arr_def add_gaussian_noise_def alloc_def extends_def is_arr_def Let_def
      case_prod_beta)

lemma add_blur_fresh: "fresh_arr w (add_blur lib w frame q)"
  by (cases "get_arr w frame")
     (simp_all add: fresh_arr_def add_blur_def alloc_def extends_def is_arr_def Let_def
      case_prod_beta)

lemma resize_and_upscale_fresh: "fresh_arr w (resize_and_upscale lib w frame q)"
  by (cases "get_arr w frame")
     (simp_all add: fresh_arr_def resize_and_upscale_def alloc_def extends_def is_arr_def Let_def
      case_prod_beta)

lemma crop_and_pad_fresh: "fresh_arr w (crop_and_pad lib w frame q)"
  by (cases "get_arr w frame")
     (simp_all add: fresh_arr_def crop_and_pad_def alloc_def extends_def is_arr_def Let_def
      case_prod_beta)

lemma shift_channel_extends: "extends w (snd (shift_channel lib w c s))"
  by (simp add: shift_channel_def alloc_def extends_def Let_def case_prod_beta)


lemma add_color_shift_fresh: "fresh_arr w (add_color_shift lib w frame s)"
proof (cases "get_arr w frame")
  case (Inl e)
  then show ?thesis by (simp add: fresh_arr_def add_color_shift_def extends_refl)
next
  case (Inr x)
  define b where "b = fst (cv_split lib x)"
  define g where "g = fst (snd (cv_split lib x))"
  define r where "r = snd (snd (cv_split lib x))"
  define w3 where "w3 = snd (alloc (snd (alloc (snd (alloc w (Arr b))) (Arr g))) (Arr r))"
  define w4 where "w4 = snd (shift_channel lib w3 b s)"
  define w5 where "w5 = snd (shift_channel lib w4 g s)"
  define w6 where "w6 = snd (shift_channel lib w5 r s)"
  have e3: "extends w w3" by (simp add: w3_def alloc_def extends_def)
  have e4: "extends w3 w4" unfolding w4_def by (rule shift_channel_extends)
  have e5: "extends w4 w5" unfolding w5_def by (rule shift_channel_extends)
  have e6: "extends w5 w6" unfolding w6_def by (rule shift_channel_extends)
  have e: "extends w w6"
    using e3 e4 e5 e6 by (blast intro: extends_trans)
  have r: "add_color_shift lib w frame s =
     (Inr (nxt w6), snd (alloc w6 (Arr (cv_merge lib (fst (shift_channel lib w3 b s))
          (fst (shift_channel lib w4 g s)) (fst (shift_channel lib w5 r s))))))"
    using Inr
    by (simp add: add_color_shift_def Let_def case_prod_beta w3_def w4_def w5_def w6_def
        b_def g_def r_def alloc_def)
  show ?thesis
    using e unfolding r by (simp add: fresh_arr_def alloc_def extends_def is_arr_def)
qed

lemma fresh_arr_extends: "fresh_arr w res \<Longrightarrow> extends w (snd res)"
  by (cases res) (auto simp: fresh_arr_def split: sum.splits)

lemma attack_frame_extends: "extends w (snd (attack_frame lib w frame t p))"
  unfolding attack_frame_def
  by (simp add: extends_refl fresh_arr_extends add_compression_artifacts_fresh
      add_gaussian_noise_fresh add_blur_fresh resize_and_upscale_fresh crop_and_pad_fresh
      add_color_shift_fresh)

lemma attack_frame_fresh: "catalog_type t \<Longrightarrow> fresh_arr w (attack_frame lib w frame t p)"
  unfolding attack_frame_def catalog_type_def
  by (auto simp: add_compression_artifacts_fresh
      add_gaussian_noise_fresh add_blur_fresh resize_and_upscale_fresh crop_and_pad_fresh)

lemma attack_frame_ok:
  assumes "catalog_type t" and "is_arr w frame"
  shows "\<exists>b w'. attack_frame lib w frame t p = (Inr b, w')"
proof -
  from assms(2) obtain x where x: "get_arr w frame = Inr x"
    by (auto simp: is_arr_get_arr)
  have "\<exists>b w'. add_compression_artifacts lib w frame p = (Inr b, w')"
    using x by (simp add: add_compression_artifacts_def Let_def case_prod_beta)
  moreover have "\<exists>b w'. add_gaussian_noise lib w frame p = (Inr b, w')"
    using x by (simp add: add_gaussian_noise_def Let_def case_prod_beta)
  moreover have "\<exists>b w'. add_blur lib w frame p = (Inr b, w')"
    using x by (simp add: add_blur_def Let_def case_prod_beta)
  moreover have "\<exists>b w'. resize_and_upscale lib w frame p = (Inr b, w')"
    using x by (simp add: resize_and_upscale_def Let_def case_prod_beta)
  moreover have "\<exists>b w'. crop_and_pad lib w frame p = (Inr b, w')"
    using x by (simp add: crop_and_pad_def Let_def case_prod_beta)
  ultimately show ?thesis
    using assms(1) unfolding attack_frame_def catalog_type_def by auto
qed


subsection \<open>The loop over the frames writes only into its own list\<close>

lemma grows_refl: "grows out w w"
  by (simp add: grows_def)

lemma grows_trans: "grows out w1 w2 \<Longrightarrow> grows out w2 w3 \<Longrightarrow> grows out w1 w3"
  by (auto simp: grows_def)

lemma extends_grows: "extends w w' \<Longrightarrow> grows out w w'"
  by (simp add: extends_def grows_def)

lemma list_append_Inr:
  "list_append w out a = Inr w' \<longleftrightarrow>
     (\<exists>xs. mem w out = Some (Lst xs) \<and> w' = w\<lparr>mem := (mem w)(out \<mapsto> Lst (xs @ [a]))\<rparr>)"
  by (auto simp: list_append_def split: option.splits obj.splits)

lemma list_append_grows: "list_append w out a = Inr w' \<Longrightarrow> grows out w w'"
  by (auto simp: list_append_Inr grows_def)

lemma attack_loop_grows:
  "attack_loop lib t p out w fs = (r, w') \<Longrightarrow> grows out w w'"
proof (induction fs arbitrary: w)
  case Nil
  then show ?case by (simp add: grows_refl)
next
  case (Cons frame rest)
  obtain r1 w1 where s1: "attack_frame lib w frame t p = (r1, w1)"
    by (cases "attack_frame lib w frame t p")
  have g1: "grows out w w1"
    using attack_frame_extends [of w lib frame t p] s1 by (simp add: extends_grows)
  show ?case
  proof (cases r1)
    case (Inl e)
    with Cons.prems s1 g1 show ?thesis by simp
  next
    case (Inr b)
    show ?thesis
    proof (cases "list_append w1 out b")
      case (Inl e)
      with Cons.prems s1 Inr g1 show ?thesis by simp
    next
      case ap: (Inr w2)
      with Cons.prems s1 Inr have "attack_loop lib t p out w2 rest = (r, w')" by simp
      then have "grows out w2 w'" by (rule Cons.IH)
      with g1 list_append_grows [OF ap] show ?thesis by (blast intro: grows_trans)
    qed
  qed
qed

lemma attack_loop_ok:
  assumes ct: "catalog_type t"
  shows "\<lbrakk>\<forall>a\<in>set fs. a < out \<and> is_arr w a; out < nxt w; mem w out = Some (Lst acc);
          \<forall>b\<in>set acc. out < b \<and> b < nxt w \<and> is_arr w b\<rbrakk>
     \<Longrightarrow> \<exists>w' bs. attack_loop lib t p out w fs = (None, w') \<and> mem w' out = Some (Lst bs) \<and>
           (\<forall>b\<in>set bs. out < b \<and> b < nxt w' \<and> is_arr w' b)"
proof (induction fs arbitrary: w acc)
  case Nil
  then show ?case by simp
next
  case (Cons frame rest)
  from Cons.prems(1) have fa: "is_arr w frame" by simp
  from attack_frame_ok [OF ct fa] obtain b w1
    where s1: "attack_frame lib w frame t p = (Inr b, w1)" by blast
  from attack_frame_fresh [OF ct, of w lib frame p] s1
  have f1: "extends w w1" "nxt w \<le> b" "b < nxt w1" "is_arr w1 b"
    by (simp_all add: fresh_arr_def)
  from f1(1) Cons.prems(2,3) have m1: "mem w1 out = Some (Lst acc)"
    by (simp add: extends_def)
  define w2 where "w2 = w1\<lparr>mem := (mem w1)(out \<mapsto> Lst (acc @ [b]))\<rparr>"
  have ap: "list_append w1 out b = Inr w2"
    using m1 by (simp add: list_append_Inr w2_def)
  have n2: "nxt w2 = nxt w1" by (simp add: w2_def)
  have keep: "is_arr w2 c" if "c \<noteq> out" "c < nxt w" "is_arr w c" for c
    using that f1(1) by (simp add: w2_def is_arr_def extends_def)
  have p1: "\<forall>a\<in>set rest. a < out \<and> is_arr w2 a"
    using Cons.prems(1,2) keep by auto
  have p2: "out < nxt w2" using Cons.prems(2) f1(1) n2 by (simp add: extends_def)
  have p3: "mem w2 out = Some (Lst (acc @ [b]))" by (simp add: w2_def)
  have bb: "is_arr w2 b" using f1 Cons.prems(2) by (simp add: w2_def is_arr_def)
  have p4: "\<forall>c\<in>set (acc @ [b]). out < c \<and> c < nxt w2 \<and> is_arr w2 c"
    using Cons.prems(2,4) keep f1 n2 bb by (auto simp: extends_def)
  from Cons.IH [OF p1 p2 p3 p4] obtain w' bs where
    "attack_loop lib t p out w2 rest = (None, w')" "mem w' out = Some (Lst bs)"
    "\<forall>b\<in>set bs. out < b \<and> b < nxt w' \<and> is_arr w' b" by blast
  with s1 ap show ?case by simp
qed


lemma get_arr_extends: "extends w w' \<Longrightarrow> a < nxt w \<Longrightarrow> get_arr w' a = get_arr w a"
  by (simp add: extends_def get_arr_def)

lemma get_arrs_extends:
  "extends w w' \<Longrightarrow> \<forall>a\<in>set fs. a < nxt w \<Longrightarrow> get_arrs w' fs = get_arrs w fs"
  by (induction fs) (auto simp: get_arr_extends split: sum.splits)

lemma valid_frames_extends:
  assumes "extends w w'" and "valid_frames w frames"
  shows "valid_frames w' frames \<and> contents w' frames = contents w frames \<and>
         mem w' frames = mem w frames"
proof -
  from assms(2) obtain fs where fs: "mem w frames = Some (Lst fs)" "frames < nxt w"
    "\<forall>a\<in>set fs. a < nxt w \<and> is_arr w a"
    by (auto simp: valid_frames_def split: option.splits obj.splits)
  from assms(1) fs have m: "mem w' frames = Some (Lst fs)" by (simp add: extends_def)
  have "\<forall>a\<in>set fs. a < nxt w' \<and> is_arr w' a"
    using fs(3) assms(1) extends_is_arr [OF assms(1)] by (auto simp: extends_def)
  moreover have "get_arrs w' fs = get_arrs w fs"
    using get_arrs_extends [OF assms(1)] fs(3) by blast
  ultimately show ?thesis
    using m fs assms(1) by (simp add: valid_frames_def contents_def get_list_def extends_def)
qed

lemma apply_adversarial_attack_extends:
  "extends w (snd (apply_adversarial_attack lib w frames t i))"
proof (cases "lookup_param t i")
  case (Inl e)
  then show ?thesis by (simp add: apply_adversarial_attack_def extends_refl)
next
  case (Inr p)
  define w1 where "w1 = snd (alloc w (Lst []))"
  have a: "alloc w (Lst []) = (nxt w, w1)" by (simp add: w1_def alloc_def)
  have e1: "extends w w1" by (simp add: w1_def alloc_def extends_def)
  show ?thesis
  proof (cases "get_list w1 frames")
    case (Inl e)
    with Inr a e1 show ?thesis by (simp add: apply_adversarial_attack_def)
  next
    case fs: (Inr fs)
    obtain r w2 where l: "attack_loop lib t p (nxt w) w1 fs = (r, w2)"
      by (cases "attack_loop lib t p (nxt w) w1 fs")
    from attack_loop_grows [OF l] have "grows (nxt w) w1 w2" .
    with e1 have "extends w w2" by (auto simp: grows_def extends_def)
    with Inr a fs l show ?thesis
      by (cases r) (simp_all add: apply_adversarial_attack_def)
  qed
qed

lemma apply_adversarial_attack_ok:
  assumes vf: "valid_frames w frames" and ct: "catalog_type t" and lp: "lookup_param t i = Inr p"
  shows "\<exists>w' bs. apply_adversarial_attack lib w frames t i = (Inr (nxt w), w') \<and>
           mem w' (nxt w) = Some (Lst bs) \<and> (\<forall>b\<in>set bs. nxt w < b \<and> b < nxt w' \<and> is_arr w' b)"
proof -
  define w1 where "w1 = snd (alloc w (Lst []))"
  have a: "alloc w (Lst []) = (nxt w, w1)" by (simp add: w1_def alloc_def)
  have e1: "extends w w1" by (simp add: w1_def alloc_def extends_def)
  from vf obtain fs where fs: "mem w frames = Some (Lst fs)" "frames < nxt w"
    "\<forall>a\<in>set fs. a < nxt w \<and> is_arr w a"
    by (auto simp: valid_frames_def split: option.splits obj.splits)
  have g: "get_list w1 frames = Inr fs"
    using fs e1 by (simp add: get_list_def extends_def)
  have p1: "\<forall>a\<in>set fs. a < nxt w \<and> is_arr w1 a"
    using fs(3) extends_is_arr [OF e1] by blast
  have p2: "nxt w < nxt w1" by (simp add: w1_def alloc_def)
  have p3: "mem w1 (nxt w) = Some (Lst [])" by (simp add: w1_def alloc_def)
  have p4: "\<forall>b\<in>set []. nxt w < b \<and> b < nxt w1 \<and> is_arr w1 b" by simp
  from attack_loop_ok [OF ct p1 p2 p3 p4] obtain w' bs where
    "attack_loop lib t p (nxt w) w1 fs = (None, w')" "mem w' (nxt w) = Some (Lst bs)"
    "\<forall>b\<in>set bs. nxt w < b \<and> b < nxt w' \<and> is_arr w' b" by blast
  with lp a g show ?thesis by (simp add: apply_adversarial_attack_def)
qed


subsection \<open>The loop over the attack catalog\<close>



lemma run_attacks_extends: "extends w (snd (run_attacks lib f orig frames w cs acc))"
proof (induction cs arbitrary: w acc)
  case Nil
  show ?case by (simp add: extends_refl)
next
  case (Cons c cs)
  obtain t i where c: "c = (t, i)" by (cases c)
  obtain r w1 where a: "apply_adversarial_attack lib w frames t i = (r, w1)"
    by (cases "apply_adversarial_attack lib w frames t i")
  have e1: "extends w w1"
    using apply_adversarial_attack_extends [of w lib frames t i] a by simp
  show ?case
  proof (cases r)
    case (Inl e)
    with c a e1 show ?thesis by simp
  next
    case (Inr out)
    show ?thesis
    proof (cases "call f w1 out")
      case (Inl e)
      with c a Inr e1 show ?thesis by simp
    next
      case sc: (Inr sc)
      have "extends w1 (snd (run_attacks lib f orig frames w1 cs
              (AList.update (t @ ''_'' @ i) \<lparr>score = sc, degradation = \<bar>orig - sc\<bar>\<rparr> acc)))"
        by (rule Cons.IH)
      with c a Inr sc e1 show ?thesis by (auto intro: extends_trans)
    qed
  qed
qed


lemma run_attacks_raises:
  "\<lbrakk>xs \<in> set (attacked_contents lib w frames cs); f xs = Inl e\<rbrakk>
     \<Longrightarrow> \<exists>e'. fst (run_attacks lib f orig frames w cs acc) = Inl e'"
proof (induction cs arbitrary: w acc)
  case Nil
  then show ?case by simp
next
  case (Cons c cs)
  obtain t i where c: "c = (t, i)" by (cases c)
  obtain r w1 where a: "apply_adversarial_attack lib w frames t i = (r, w1)"
    by (cases "apply_adversarial_attack lib w frames t i")
  show ?case
  proof (cases r)
    case (Inl e1)
    with c a show ?thesis by simp
  next
    case (Inr out)
    show ?thesis
    proof (cases "contents w1 out")
      case (Inl e1)
      with c a Inr show ?thesis by (simp add: call_def)
    next
      case ys: (Inr ys)
      show ?thesis
      proof (cases "f ys")
        case (Inl e1)
        with c a Inr ys show ?thesis by (simp add: call_def)
      next
        case sc: (Inr sc)
        with Cons.prems c a Inr ys have "xs \<in> set (attacked_contents lib w1 frames cs)"
          by auto
        from Cons.IH [OF this Cons.prems(2)] c a Inr ys sc show ?thesis
          by (simp add: call_def)
      qed
    qed
  qed
qed

lemma catalog_ok:
  "\<forall>c\<in>set attack_catalog. catalog_type (fst c) \<and> (\<exists>p. lookup_param (fst c) (snd c) = Inr p)"
  by (simp add: attack_catalog_def catalog_type_def lookup_param_def intensity_params_def)




text \<open>
  Claim C5: when the scoring function raises for one attack, that attack's entry is left
  out or marked failed and the remaining attacks are still evaluated. As stated this
  fails: \<open>test_robustness\<close> has no handler. With a scoring function that raises on a
  blank frame, the fifth attack (blur) produces blank frames, the exception leaves
  \<open>test_robustness\<close>, and the caller gets no result, although the scoring function
  succeeds on the original frames and on the frames of the six other attacks.
\<close>

theorem blur_failure_aborts_test_robustness:
  "score_strict [10, 20] = Inr (3 / 10) \<and>
   attacked_contents lib0 w0 2 attack_catalog =
     [[12, 22], [12, 22], [12, 22], [17, 28], [0, 0], [10, 20], [10, 20]] \<and>
   score_strict [0, 0] = Inl (Raised ''blank frame'') \<and>
   fst (test_robustness lib0 score_strict w0 2) = Inl (Raised ''blank frame'')"
  by (simp add: test_robustness_def call_def contents_def get_list_def get_arr_def w0_def
      score_strict_def attack_catalog_def apply_adversarial_attack_def lookup_param_def
      intensity_params_def alloc_def attack_frame_def add_compression_artifacts_def
      add_gaussian_noise_def add_blur_def resize_and_upscale_def crop_and_pad_def
      height_width_def list_append_def lib0_def Let_def)

text \<open>
  Claim C5, amended: an exception of the scoring function is not isolated but propagated.
  If the scoring function raises on the original frames or on the frames of any attack
  of the catalog, \<open>test_robustness\<close> raises and returns no result.
\<close>

theorem test_robustness_propagates:
  assumes "contents w frames = Inr xs0"
    and "ys \<in> set (xs0 # attacked_contents lib w frames attack_catalog)"
    and "f ys = Inl e"
  shows "\<exists>e'. fst (test_robustness lib f w frames) = Inl e'"
proof (cases "f xs0")
  case (Inl e0)
  with assms(1) show ?thesis by (simp add: test_robustness_def call_def)
next
  case (Inr orig)
  with assms have "ys \<in> set (attacked_contents lib w frames attack_catalog)" by auto
  from run_attacks_raises [where f = f and xs = ys and orig = orig and acc = "[]", OF this assms(3)]
  obtain e' where
    "fst (run_attacks lib f orig frames w attack_catalog []) = Inl e'" by blast
  with assms(1) Inr show ?thesis
    by (auto simp: test_robustness_def call_def split: prod.splits sum.splits)
qed

theorem test_robustness_propagates_witness:
  "contents w0 2 = Inr [10, 20] \<and>
   [0, 0] \<in> set ([10, 20] # attacked_contents lib0 w0 2 attack_catalog) \<and>
   score_strict [0, 0] = Inl (Raised ''blank frame'') \<and>
   (\<exists>e'. fst (test_robustness lib0 score_strict w0 2) = Inl e')"
proof -
  have c: "contents w0 2 = Inr [10, 20]"
    by (simp add: contents_def get_list_def get_arr_def w0_def)
  have a: "[0, 0] \<in> set ([10, 20] # attacked_contents lib0 w0 2 attack_catalog)"
    by (simp add: contents_def get_list_def get_arr_def w0_def
        attack_catalog_def apply_adversarial_attack_def lookup_param_def
        intensity_params_def alloc_def attack_frame_def add_compression_artifacts_def
        add_gaussian_noise_def add_blur_def resize_and_upscale_def crop_and_pad_def
        height_width_def list_append_def lib0_def Let_def)
  have f: "score_strict [0, 0] = Inl (Raised ''blank frame'')"
    by (simp add: score_strict_def)
  from test_robustness_propagates [where f = score_strict and ys = "[0, 0]", OF c a f] c a f
  show ?thesis by blast
qed

lemma test_robustness_extends: "extends w (snd (test_robustness lib f w frames))"
proof (cases "call f w frames")
  case (Inl e)
  then show ?thesis by (simp add: test_robustness_def extends_refl)
next
  case (Inr orig)
  with run_attacks_extends [of w lib f orig frames attack_catalog "[]"] show ?thesis
    by (auto simp: test_robustness_def split: prod.splits sum.splits)
qed

text \<open>
  Claim C7: after \<open>test_robustness\<close> the caller's frame list and the frames in it are
  what they were, and each attack of the catalog works on a copy: it returns a new list
  of new arrays and writes into no object that existed before. It holds whatever the
  outcome of \<open>test_robustness\<close> is, for a scoring function that only reads its frames.
\<close>

theorem attacks_leave_input_unchanged:
  assumes vf: "valid_frames w frames"
  shows "(mem (snd (test_robustness lib f w frames)) frames = mem w frames \<and>
          contents (snd (test_robustness lib f w frames)) frames = contents w frames \<and>
          (\<forall>a<nxt w. mem (snd (test_robustness lib f w frames)) a = mem w a)) \<and>
         (\<forall>c\<in>set attack_catalog.
            \<exists>out w' bs. apply_adversarial_attack lib w frames (fst c) (snd c) = (Inr out, w') \<and>
              (\<forall>a<nxt w. mem w' a = mem w a) \<and> nxt w \<le> out \<and>
              mem w' out = Some (Lst bs) \<and> (\<forall>b\<in>set bs. nxt w \<le> b \<and> is_arr w' b))"
proof -
  have e: "extends w (snd (test_robustness lib f w frames))"
    by (rule test_robustness_extends)
  have 1: "mem (snd (test_robustness lib f w frames)) frames = mem w frames \<and>
          contents (snd (test_robustness lib f w frames)) frames = contents w frames \<and>
          (\<forall>a<nxt w. mem (snd (test_robustness lib f w frames)) a = mem w a)"
    using valid_frames_extends [OF e vf] e by (simp add: extends_def)
  have 2: "\<exists>out w' bs. apply_adversarial_attack lib w frames (fst c) (snd c) = (Inr out, w') \<and>
              (\<forall>a<nxt w. mem w' a = mem w a) \<and> nxt w \<le> out \<and>
              mem w' out = Some (Lst bs) \<and> (\<forall>b\<in>set bs. nxt w \<le> b \<and> is_arr w' b)"
    if "c \<in> set attack_catalog" for c
  proof -
    from catalog_ok that obtain p where ct: "catalog_type (fst c)"
      and lp: "lookup_param (fst c) (snd c) = Inr p" by blast
    from apply_adversarial_attack_ok [OF vf ct lp] obtain w' bs where
      a: "apply_adversarial_attack lib w frames (fst c) (snd c) = (Inr (nxt w), w')" and
      m: "mem w' (nxt w) = Some (Lst bs)" and
      bs: "\<forall>b\<in>set bs. nxt w < b \<and> b < nxt w' \<and> is_arr w' b" by blast
    have "extends w w'"
      using apply_adversarial_attack_extends [of w lib frames "fst c" "snd c"] a by simp
    with a m bs show ?thesis by (auto simp: extends_def)
  qed
  from 1 2 show ?thesis by blast
qed

theorem attacks_leave_input_unchanged_witness:
  "valid_frames w0 2 \<and>
   mem (snd (test_robustness lib0 score_strict w0 2)) 2 = Some (Lst [0, 1]) \<and>
   mem (snd (test_robustness lib0 score_strict w0 2)) 0 = Some (Arr 10) \<and>
   mem (snd (test_robustness lib0 score_strict w0 2)) 1 = Some (Arr 20) \<and>
   contents (snd (test_robustness lib0 score_strict w0 2)) 2 = Inr [10, 20]"
proof -
  have v: "valid_frames w0 2"
    by (simp add: valid_frames_def w0_def is_arr_def)
  have u: "mem (snd (test_robustness lib0 score_strict w0 2)) 2 = mem w0 2 \<and>
      contents (snd (test_robustness lib0 score_strict w0 2)) 2 = contents w0 2 \<and>
      (\<forall>a<nxt w0. mem (snd (test_robustness lib0 score_strict w0 2)) a = mem w0 a)"
    using attacks_leave_input_unchanged [OF v, of lib0 score_strict] by (rule conjunct1)
  have n: "(0::nat) < nxt w0" "(1::nat) < nxt w0" by (simp_all add: w0_def)
  from u n have "mem (snd (test_robustness lib0 score_strict w0 2)) 0 = mem w0 0"
    and "mem (snd (test_robustness lib0 score_strict w0 2)) 1 = mem w0 1" by blast+
  moreover have "mem w0 0 = Some (Arr 10)" "mem w0 1 = Some (Arr 20)" "mem w0 2 = Some (Lst [0, 1])"
    "contents w0 2 = Inr [10, 20]"
    by (simp_all add: w0_def contents_def get_list_def get_arr_def)
  ultimately show ?thesis using u v by simp
qed

end
